theory Spec2Isabelle
  imports Main "HOL-Library.Word"
begin

section \<open>The bootstrap helper of pkg/bootstrap/docker/openshift (admin.go)\<close>

text \<open>
  admin.go installs a registry and a router on a running cluster. Its three functions
  \<^verbatim>\<open>InstallRegistry\<close>, \<^verbatim>\<open>InstallRouter\<close> and \<^verbatim>\<open>catFiles\<close> are embedded here,
  together with \<^verbatim>\<open>imageFormat\<close>. The cluster client, the delegate commands, the
  certificate utility and \<^verbatim>\<open>filepath.Join\<close> live in other packages: they are
  parameters of the model. The file system of \<^verbatim>\<open>os\<close> and \<^verbatim>\<open>io\<close> is a map from
  paths to byte lists, with the failures of its calls given by the file system itself.
\<close>

subsection \<open>Errors\<close>

text \<open>
  A Go \<^verbatim>\<open>error\<close> is a value of \<open>error option\<close>: \<open>None\<close> is \<^verbatim>\<open>nil\<close>. Three kinds of
  error reach admin.go: the status errors of the cluster API (they carry a reason, which
  \<^verbatim>\<open>apierrors.IsNotFound\<close> reads), the path errors of package \<^verbatim>\<open>os\<close>, and any other
  error (a transport failure, a failure of a delegate). The fourth constructor is the
  error built by \<^verbatim>\<open>errors.NewError(msg).WithCause(err)\<close>.
\<close>

datatype StatusReason =
    StatusReasonUnknown
  | StatusReasonNotFound
  | StatusReasonAlreadyExists
  | StatusReasonForbidden
  | StatusReasonUnauthorized
  | StatusReasonServerTimeout

datatype error =
    StatusError StatusReason string
  | PathError string string string
  | OtherError string
  | DockerError string "error option"

text \<open>
  Modelled from the spec: package pkg/bootstrap/docker/errors is missing from the sources.
  The spec has every locally detected failure "wrapped with a short descriptive message
  plus the original cause": \<open>NewError\<close> makes the error with the message and no cause,
  \<open>WithCause\<close> sets the cause.
\<close>

definition NewError :: "string \<Rightarrow> error" where
  "NewError msg = DockerError msg None"

fun WithCause :: "error \<Rightarrow> error \<Rightarrow> error" where
  "WithCause (DockerError msg _) cause = DockerError msg (Some cause)"
| "WithCause e cause = e"

text \<open>
  \<^verbatim>\<open>apierrors.IsNotFound\<close> of the cluster API library: the reason of a status error is
  the one it carries, the reason of any other error is unknown.
\<close>

fun reasonForError :: "error \<Rightarrow> StatusReason" where
  "reasonForError (StatusError r _) = r"
| "reasonForError _ = StatusReasonUnknown"

definition IsNotFound :: "error \<Rightarrow> bool" where
  "IsNotFound err = (reasonForError err = StatusReasonNotFound)"

subsection \<open>The file system\<close>

type_synonym path = string
type_synonym bytes = "8 word list"

text \<open>
  \<open>files\<close> holds the content of every file that exists. The other three fields say which
  calls fail: \<open>createFault p\<close> is the error of \<^verbatim>\<open>os.Create(p)\<close>, \<open>openFault p\<close> the
  error of \<^verbatim>\<open>os.Open(p)\<close> on a file that exists (a missing file always fails to open),
  and \<open>copyFault p = Some (n, e)\<close> makes \<^verbatim>\<open>io.Copy\<close> from \<open>p\<close> fail with \<open>e\<close>
  once \<open>n\<close> bytes have been written.
\<close>

record filesystem =
  files :: "path \<rightharpoonup> bytes"
  createFault :: "path \<Rightarrow> error option"
  openFault :: "path \<Rightarrow> error option"
  copyFault :: "path \<Rightarrow> (nat \<times> error) option"

definition bytesOf :: "filesystem \<Rightarrow> path \<Rightarrow> bytes" where
  "bytesOf fs p = (case files fs p of None \<Rightarrow> [] | Some b \<Rightarrow> b)"

text \<open>
  \<^verbatim>\<open>os.Create\<close> creates the file or truncates it; the handle it returns is the path
  (writes through it go to the end of the file, which only this handle writes).
\<close>

definition osCreate :: "filesystem \<Rightarrow> path \<Rightarrow> error + (path \<times> filesystem)" where
  "osCreate fs name =
     (case createFault fs name of
        Some e \<Rightarrow> Inl e
      | None \<Rightarrow> Inr (name, fs\<lparr>files := (files fs)(name \<mapsto> [])\<rparr>))"

definition osOpen :: "filesystem \<Rightarrow> path \<Rightarrow> error + path" where
  "osOpen fs name =
     (case files fs name of
        None \<Rightarrow> Inl (PathError ''open'' name ''no such file or directory'')
      | Some _ \<Rightarrow> (case openFault fs name of Some e \<Rightarrow> Inl e | None \<Rightarrow> Inr name))"

text \<open>
  \<^verbatim>\<open>io.Copy(dst, src)\<close> reads \<open>src\<close> to its end and writes what it reads to \<open>dst\<close>.
  It returns the error, if any (the byte count is dropped by its caller), and the file
  system. When \<open>src\<close> is the file \<open>dst\<close> itself and holds bytes, every write adds to
  what is left to read and the copy does not come to an end: the result is \<open>None\<close>.
\<close>

definition ioCopy :: "filesystem \<Rightarrow> path \<Rightarrow> path \<Rightarrow> (error option \<times> filesystem) option" where
  "ioCopy fs dst src =
     (case copyFault fs src of
        Some (n, e) \<Rightarrow>
          Some (Some e, fs\<lparr>files := (files fs)(dst \<mapsto> bytesOf fs dst @ take n (bytesOf fs src))\<rparr>)
      | None \<Rightarrow>
          if src = dst \<and> bytesOf fs src \<noteq> [] then None
          else Some (None, fs\<lparr>files := (files fs)(dst \<mapsto> bytesOf fs dst @ bytesOf fs src)\<rparr>))"

subsection \<open>catFiles\<close>

text \<open>
  The loop of \<^verbatim>\<open>catFiles\<close> over \<^verbatim>\<open>src\<close>. \<open>err\<close> is the variable \<^verbatim>\<open>err\<close> of the
  function, declared by the call of \<^verbatim>\<open>os.Create\<close> and assigned by every \<^verbatim>\<open>io.Copy\<close>;
  \<^verbatim>\<open>oerr\<close> is local to one turn of the loop. When the open fails the source returns
  \<^verbatim>\<open>err\<close>. \<^verbatim>\<open>in.Close()\<close> and the deferred \<^verbatim>\<open>out.Close()\<close> change no content.
\<close>

fun catLoop :: "filesystem \<Rightarrow> path \<Rightarrow> error option \<Rightarrow> path list \<Rightarrow> (error option \<times> filesystem) option" where
  "catLoop fs out err [] = Some (None, fs)"
| "catLoop fs out err (f # src) =
     (case osOpen fs f of
        Inl oerr \<Rightarrow> Some (err, fs)
      | Inr inp \<Rightarrow>
          (case ioCopy fs out inp of
             None \<Rightarrow> None
           | Some (err', fs') \<Rightarrow>
               (case err' of
                  Some e \<Rightarrow> Some (err', fs')
                | None \<Rightarrow> catLoop fs' out err' src)))"

definition catFiles :: "filesystem \<Rightarrow> path \<Rightarrow> path list \<Rightarrow> (error option \<times> filesystem) option" where
  "catFiles fs dest src =
     (case osCreate fs dest of
        Inl err \<Rightarrow> Some (Some err, fs)
      | Inr (out, fs1) \<Rightarrow> catLoop fs1 out None src)"

subsection \<open>The objects of the cluster and the configurations of the delegates\<close>

text \<open>
  The structs of the other packages, with the fields admin.go sets or reads; every
  other field keeps its zero value in the source and is left out. \<^verbatim>\<open>Output\<close> of the
  certificate options and the \<^verbatim>\<open>out\<close> writer only receive diagnostics.
\<close>

record ServiceAccount =
  Name :: string

record SecurityContextConstraints =
  Users :: "string list"
  Groups :: "string list"

record ImageTemplate =
  Format :: string
  Latest :: bool

record RegistryConfig =
  Name :: string
  Type :: string
  ImageTemplate :: ImageTemplate
  Ports :: string
  Replicas :: int
  Labels :: string
  Volume :: string
  ServiceAccount :: string

record RouterConfig =
  Name :: string
  Type :: string
  ImageTemplate :: ImageTemplate
  Ports :: string
  Replicas :: int
  Labels :: string
  Credentials :: path
  DefaultCertificate :: path
  StatsPort :: int
  StatsUsername :: string
  HostNetwork :: bool
  HostPorts :: bool
  ServiceAccount :: string

record SignerCertOptions =
  CertFile :: path
  KeyFile :: path
  SerialFile :: path

record CreateServerCertOptions =
  SignerCertOptions :: SignerCertOptions
  Overwrite :: bool
  Hostnames :: "string list"
  CertFile :: path
  KeyFile :: path

subsection \<open>The world, and the calls made on it\<close>

text \<open>
  The world is the state of the cluster, of any type \<open>'c\<close>, and the file system. Every
  call on a collaborator takes the world and returns its result and the world it leaves.
  The model lists the calls it makes, in order, with their arguments.
\<close>

record 'c world =
  cluster :: 'c
  fs :: filesystem

datatype call =
    isServicesGet: ServicesGet string string
  | isServiceAccountsCreate: ServiceAccountsCreate string ServiceAccount
  | isSCCGet: SCCGet string
  | isSCCUpdate: SCCUpdate SecurityContextConstraints
  | isCreateServerCert: CreateServerCert CreateServerCertOptions
  | isCatFiles: CatFiles path "path list"
  | isRunCmdRegistry: RunCmdRegistry RegistryConfig
  | isRunCmdRouter: RunCmdRouter RouterConfig

text \<open>
  The methods of \<^verbatim>\<open>kclient.Interface\<close> that admin.go calls:
  \<^verbatim>\<open>Services(ns).Get(name)\<close>, \<^verbatim>\<open>ServiceAccounts(ns).Create(sa)\<close>,
  \<^verbatim>\<open>SecurityContextConstraints().Get(name)\<close> and \<^verbatim>\<open>.Update(scc)\<close>. The source
  drops the object returned by the first, the second and the last, so these return the
  error alone.
\<close>

record 'c kclient =
  servicesGet :: "string \<Rightarrow> string \<Rightarrow> 'c world \<Rightarrow> error option \<times> 'c world"
  serviceAccountsCreate :: "string \<Rightarrow> ServiceAccount \<Rightarrow> 'c world \<Rightarrow> error option \<times> 'c world"
  sccGet :: "string \<Rightarrow> 'c world \<Rightarrow> (error + SecurityContextConstraints) \<times> 'c world"
  sccUpdate :: "SecurityContextConstraints \<Rightarrow> 'c world \<Rightarrow> error option \<times> 'c world"

text \<open>
  The functions of the other packages: \<^verbatim>\<open>variable.NewDefaultImageTemplate\<close>,
  \<^verbatim>\<open>registry.RunCmdRegistry\<close> and \<^verbatim>\<open>router.RunCmdRouter\<close> (with the factory
  \<^verbatim>\<open>f\<close> and the command built for them), \<^verbatim>\<open>CreateServerCert\<close> of the certificate
  options, and \<^verbatim>\<open>filepath.Join\<close> of two elements.
\<close>

record 'c packages =
  newDefaultImageTemplate :: ImageTemplate
  runCmdRegistry :: "RegistryConfig \<Rightarrow> 'c world \<Rightarrow> error option \<times> 'c world"
  runCmdRouter :: "RouterConfig \<Rightarrow> 'c world \<Rightarrow> error option \<times> 'c world"
  createServerCert :: "CreateServerCertOptions \<Rightarrow> 'c world \<Rightarrow> error option \<times> 'c world"
  filepathJoin :: "path \<Rightarrow> path \<Rightarrow> path"

text \<open>
  \<^verbatim>\<open>serviceaccount.MakeUsername\<close> of the cluster library: the prefix, the namespace,
  a colon and the name.
\<close>

definition MakeUsername :: "string \<Rightarrow> string \<Rightarrow> string" where
  "MakeUsername namespace name = ''system:serviceaccount:'' @ namespace @ '':'' @ name"

text \<open>
  \<^verbatim>\<open>fmt.Sprintf\<close> for the one verb the source uses, \<^verbatim>\<open>%s\<close> with a string operand:
  the operand is written in place of the verb, every other character is copied.
\<close>

fun Sprintf :: "string \<Rightarrow> string list \<Rightarrow> string" where
  "Sprintf [] args = []"
| "Sprintf [c] args = [c]"
| "Sprintf (c # d # rest) args =
     (if c = CHR ''%'' \<and> d = CHR ''s''
      then (case args of
              [] \<Rightarrow> ''%!s(MISSING)'' @ Sprintf rest []
            | a # as \<Rightarrow> a @ Sprintf rest as)
      else c # Sprintf (d # rest) args)"

subsection \<open>admin.go\<close>

definition svcDockerRegistry :: string where
  "svcDockerRegistry = ''docker-registry''"

definition svcRouter :: string where
  "svcRouter = ''router''"

definition masterConfigDir :: path where
  "masterConfigDir = ''/var/lib/origin/openshift.local.config/master''"

definition imageFormat :: "string \<Rightarrow> string" where
  "imageFormat tag = Sprintf ''openshift/origin-${component}:%s'' [tag]"

text \<open>
  \<^verbatim>\<open>InstallRegistry\<close>. The result is the list of the calls made, the error returned
  and the world left. The receiver and \<^verbatim>\<open>configDir\<close> are not used by the source; the
  output of the delegate is only logged.
\<close>

definition InstallRegistry ::
  "'c kclient \<Rightarrow> 'c packages \<Rightarrow> path \<Rightarrow> string \<Rightarrow> 'c world \<Rightarrow> call list \<times> error option \<times> 'c world" where
  "InstallRegistry kubeClient pk configDir tag w =
     (let t1 = [ServicesGet ''default'' svcDockerRegistry] in
      case servicesGet kubeClient ''default'' svcDockerRegistry w of
        (None, w1) \<Rightarrow> (t1, None, w1)
      | (Some err, w1) \<Rightarrow>
          if \<not> IsNotFound err
          then (t1, Some (WithCause (NewError ''error retrieving docker registry service'') err), w1)
          else
            let cfg = \<lparr>RegistryConfig.Name = ''registry'',
                       RegistryConfig.Type = ''docker-registry'',
                       RegistryConfig.ImageTemplate = newDefaultImageTemplate pk,
                       RegistryConfig.Ports = ''5000'',
                       RegistryConfig.Replicas = 1,
                       RegistryConfig.Labels = ''docker-registry=default'',
                       RegistryConfig.Volume = ''/registry'',
                       RegistryConfig.ServiceAccount = ''registry''\<rparr>;
                cfg = cfg\<lparr>RegistryConfig.ImageTemplate :=
                            (RegistryConfig.ImageTemplate cfg)\<lparr>Format := imageFormat tag\<rparr>\<rparr>
            in case runCmdRegistry pk cfg w1 of
                 (err, w2) \<Rightarrow> (t1 @ [RunCmdRegistry cfg], err, w2))"

text \<open>
  \<^verbatim>\<open>InstallRouter\<close>. The result is the list of the calls made and, when the function
  returns, the error returned and the world left; it fails to return only where
  \<^verbatim>\<open>catFiles\<close> does.
\<close>

definition InstallRouter ::
  "'c kclient \<Rightarrow> 'c packages \<Rightarrow> path \<Rightarrow> string \<Rightarrow> string \<Rightarrow> 'c world
     \<Rightarrow> call list \<times> (error option \<times> 'c world) option" where
  "InstallRouter kubeClient pk configDir tag hostIP w =
     (let t1 = [ServicesGet ''default'' ''router''] in
      case servicesGet kubeClient ''default'' ''router'' w of
        (None, w1) \<Rightarrow> (t1, Some (None, w1))
      | (Some _, w1) \<Rightarrow>
     (let masterDir = filepathJoin pk configDir ''master'';
          routerSA = \<lparr>ServiceAccount.Name = ''router''\<rparr>;
          t2 = t1 @ [ServiceAccountsCreate ''default'' routerSA] in
      case serviceAccountsCreate kubeClient ''default'' routerSA w1 of
        (Some err, w2) \<Rightarrow>
          (t2, Some (Some (WithCause (NewError ''cannot create router service account'') err), w2))
      | (None, w2) \<Rightarrow>
     (let t3 = t2 @ [SCCGet ''privileged''] in
      case sccGet kubeClient ''privileged'' w2 of
        (Inl err, w3) \<Rightarrow>
          (t3, Some (Some (WithCause (NewError ''cannot retrieve privileged SCC'') err), w3))
      | (Inr privilegedSCC, w3) \<Rightarrow>
     (let privilegedSCC = privilegedSCC\<lparr>Users := Users privilegedSCC @ [MakeUsername ''default'' ''router'']\<rparr>;
          t4 = t3 @ [SCCUpdate privilegedSCC] in
      case sccUpdate kubeClient privilegedSCC w3 of
        (Some err, w4) \<Rightarrow>
          (t4, Some (Some (WithCause (NewError ''cannot update privileged SCC'') err), w4))
      | (None, w4) \<Rightarrow>
     (let createCertOptions =
            \<lparr>SignerCertOptions =
               \<lparr>SignerCertOptions.CertFile = filepathJoin pk masterDir ''ca.crt'',
                SignerCertOptions.KeyFile = filepathJoin pk masterDir ''ca.key'',
                SignerCertOptions.SerialFile = filepathJoin pk masterDir ''ca.serial.txt''\<rparr>,
             Overwrite = True,
             Hostnames = [Sprintf ''%s.xip.io'' [hostIP]],
             CreateServerCertOptions.CertFile = filepathJoin pk masterDir ''router.crt'',
             CreateServerCertOptions.KeyFile = filepathJoin pk masterDir ''router.key''\<rparr>;
          t5 = t4 @ [CreateServerCert createCertOptions] in
      case createServerCert pk createCertOptions w4 of
        (Some err, w5) \<Rightarrow>
          (t5, Some (Some (WithCause (NewError ''cannot create router cert'') err), w5))
      | (None, w5) \<Rightarrow>
     (let dest = filepathJoin pk masterDir ''router.pem'';
          src = [filepathJoin pk masterDir ''router.crt'',
                 filepathJoin pk masterDir ''router.key'',
                 filepathJoin pk masterDir ''ca.crt''];
          t6 = t5 @ [CatFiles dest src] in
      case catFiles (fs w5) dest src of
        None \<Rightarrow> (t6, None)
      | Some (Some err, fs6) \<Rightarrow> (t6, Some (Some err, w5\<lparr>fs := fs6\<rparr>))
      | Some (None, fs6) \<Rightarrow>
     (let cfg = \<lparr>RouterConfig.Name = ''router'',
                 RouterConfig.Type = ''haproxy-router'',
                 RouterConfig.ImageTemplate = newDefaultImageTemplate pk,
                 RouterConfig.Ports = ''80:80,443:443'',
                 RouterConfig.Replicas = 1,
                 RouterConfig.Labels = ''router=<name>'',
                 RouterConfig.Credentials = filepathJoin pk masterDir ''admin.kubeconfig'',
                 RouterConfig.DefaultCertificate = filepathJoin pk masterDir ''router.pem'',
                 RouterConfig.StatsPort = 1936,
                 RouterConfig.StatsUsername = ''admin'',
                 RouterConfig.HostNetwork = True,
                 RouterConfig.HostPorts = True,
                 RouterConfig.ServiceAccount = ''router''\<rparr>;
          cfg = cfg\<lparr>RouterConfig.ImageTemplate :=
                      (RouterConfig.ImageTemplate cfg)\<lparr>Format := imageFormat tag\<rparr>\<rparr>
      in case runCmdRouter pk cfg (w5\<lparr>fs := fs6\<rparr>) of
           (err, w7) \<Rightarrow> (t6 @ [RunCmdRouter cfg], Some (err, w7)))))))))"

subsection \<open>The arguments of the calls\<close>

text \<open>
  The values \<^verbatim>\<open>InstallRegistry\<close> and \<^verbatim>\<open>InstallRouter\<close> build for their calls,
  named to state what is passed: the master directory, the configuration of each
  delegate once its image format is set, the options of the certificate, the policy
  written back, and the files of the bundle.
\<close>

definition routerMasterDir :: "'c packages \<Rightarrow> path \<Rightarrow> path" where
  "routerMasterDir pk configDir = filepathJoin pk configDir ''master''"

definition registryConfig :: "'c packages \<Rightarrow> string \<Rightarrow> RegistryConfig" where
  "registryConfig pk tag =
     \<lparr>RegistryConfig.Name = ''registry'',
      RegistryConfig.Type = ''docker-registry'',
      RegistryConfig.ImageTemplate = (newDefaultImageTemplate pk)\<lparr>Format := imageFormat tag\<rparr>,
      RegistryConfig.Ports = ''5000'',
      RegistryConfig.Replicas = 1,
      RegistryConfig.Labels = ''docker-registry=default'',
      RegistryConfig.Volume = ''/registry'',
      RegistryConfig.ServiceAccount = ''registry''\<rparr>"

definition routerConfig :: "'c packages \<Rightarrow> path \<Rightarrow> string \<Rightarrow> RouterConfig" where
  "routerConfig pk configDir tag =
     \<lparr>RouterConfig.Name = ''router'',
      RouterConfig.Type = ''haproxy-router'',
      RouterConfig.ImageTemplate = (newDefaultImageTemplate pk)\<lparr>Format := imageFormat tag\<rparr>,
      RouterConfig.Ports = ''80:80,443:443'',
      RouterConfig.Replicas = 1,
      RouterConfig.Labels = ''router=<name>'',
      RouterConfig.Credentials = filepathJoin pk (routerMasterDir pk configDir) ''admin.kubeconfig'',
      RouterConfig.DefaultCertificate = filepathJoin pk (routerMasterDir pk configDir) ''router.pem'',
      RouterConfig.StatsPort = 1936,
      RouterConfig.StatsUsername = ''admin'',
      RouterConfig.HostNetwork = True,
      RouterConfig.HostPorts = True,
      RouterConfig.ServiceAccount = ''router''\<rparr>"

definition routerCertOptions :: "'c packages \<Rightarrow> path \<Rightarrow> string \<Rightarrow> CreateServerCertOptions" where
  "routerCertOptions pk configDir hostIP =
     \<lparr>SignerCertOptions =
        \<lparr>SignerCertOptions.CertFile = filepathJoin pk (routerMasterDir pk configDir) ''ca.crt'',
         SignerCertOptions.KeyFile = filepathJoin pk (routerMasterDir pk configDir) ''ca.key'',
         SignerCertOptions.SerialFile = filepathJoin pk (routerMasterDir pk configDir) ''ca.serial.txt''\<rparr>,
      Overwrite = True,
      Hostnames = [hostIP @ ''.xip.io''],
      CreateServerCertOptions.CertFile = filepathJoin pk (routerMasterDir pk configDir) ''router.crt'',
      CreateServerCertOptions.KeyFile = filepathJoin pk (routerMasterDir pk configDir) ''router.key''\<rparr>"

definition routerIdentity :: string where
  "routerIdentity = MakeUsername ''default'' ''router''"

definition grantRouter :: "SecurityContextConstraints \<Rightarrow> SecurityContextConstraints" where
  "grantRouter scc = scc\<lparr>Users := Users scc @ [routerIdentity]\<rparr>"

definition routerPem :: "'c packages \<Rightarrow> path \<Rightarrow> path" where
  "routerPem pk configDir = filepathJoin pk (routerMasterDir pk configDir) ''router.pem''"

definition routerPemSources :: "'c packages \<Rightarrow> path \<Rightarrow> path list" where
  "routerPemSources pk configDir =
     [filepathJoin pk (routerMasterDir pk configDir) ''router.crt'',
      filepathJoin pk (routerMasterDir pk configDir) ''router.key'',
      filepathJoin pk (routerMasterDir pk configDir) ''ca.crt'']"

subsection \<open>A small cluster\<close>

text \<open>
  A cluster to run the model on: the services and service accounts of the namespace
  \<^verbatim>\<open>default\<close> and the users of the policy \<^verbatim>\<open>privileged\<close>. Its client answers from
  this state; the delegates add their service, the certificate utility writes the
  certificate and the key, and paths are joined with a slash.
\<close>

record cluster =
  services :: "string list"
  serviceAccounts :: "string list"
  privilegedUsers :: "string list"

definition simClient :: "cluster kclient" where
  "simClient =
     \<lparr>servicesGet = (\<lambda>ns name w.
        (if name \<in> set (services (cluster w)) then None
         else Some (StatusError StatusReasonNotFound name), w)),
      serviceAccountsCreate = (\<lambda>ns sa w.
        if ServiceAccount.Name sa \<in> set (serviceAccounts (cluster w))
        then (Some (StatusError StatusReasonAlreadyExists (ServiceAccount.Name sa)), w)
        else (None, w\<lparr>cluster := (cluster w)\<lparr>serviceAccounts :=
                       serviceAccounts (cluster w) @ [ServiceAccount.Name sa]\<rparr>\<rparr>)),
      sccGet = (\<lambda>name w.
        (if name = ''privileged'' then Inr \<lparr>Users = privilegedUsers (cluster w), Groups = []\<rparr>
         else Inl (StatusError StatusReasonNotFound name), w)),
      sccUpdate = (\<lambda>scc w. (None, w\<lparr>cluster := (cluster w)\<lparr>privilegedUsers := Users scc\<rparr>\<rparr>))\<rparr>"

text \<open>The same client behind a connection that is refused: the probe fails, and not
  with the reason not-found.\<close>

definition refusedClient :: "cluster kclient" where
  "refusedClient =
     simClient\<lparr>servicesGet := (\<lambda>ns name w. (Some (OtherError ''connection refused''), w))\<rparr>"

definition simPackages :: "cluster packages" where
  "simPackages =
     \<lparr>newDefaultImageTemplate =
        \<lparr>Format = ''openshift/origin-${component}:${version}'', Latest = False\<rparr>,
      runCmdRegistry = (\<lambda>cfg w.
        (None, w\<lparr>cluster := (cluster w)\<lparr>services := services (cluster w) @ [''docker-registry'']\<rparr>\<rparr>)),
      runCmdRouter = (\<lambda>cfg w.
        (None, w\<lparr>cluster := (cluster w)\<lparr>services := services (cluster w) @ [''router'']\<rparr>\<rparr>)),
      createServerCert = (\<lambda>opts w.
        (None, w\<lparr>fs := (fs w)\<lparr>files := (files (fs w))
                 (CreateServerCertOptions.CertFile opts \<mapsto> [0x63, 0x72, 0x74],
                  CreateServerCertOptions.KeyFile opts \<mapsto> [0x6B, 0x65, 0x79])\<rparr>\<rparr>)),
      filepathJoin = (\<lambda>dir name. dir @ ''/'' @ name)\<rparr>"

definition simFs :: filesystem where
  "simFs =
     \<lparr>files = [''/cfg/master/ca.crt'' \<mapsto> [0x63, 0x61]],
      createFault = (\<lambda>p. None),
      openFault = (\<lambda>p. None),
      copyFault = (\<lambda>p. None)\<rparr>"

definition simWorld :: "string list \<Rightarrow> cluster world" where
  "simWorld svcs =
     \<lparr>cluster = \<lparr>services = svcs, serviceAccounts = [], privilegedUsers = [''A'', ''B'']\<rparr>,
      fs = simFs\<rparr>"

text \<open>Four files on a file system without faults; \<open>d\<close> already holds a byte.\<close>

definition threeFiles :: filesystem where
  "threeFiles = simFs\<lparr>files := [''a'' \<mapsto> [1, 2], ''b'' \<mapsto> [3], ''c'' \<mapsto> [4, 5], ''d'' \<mapsto> [9]]\<rparr>"

section \<open>The paths through the two installers\<close>

text \<open>
  One lemma for each way out of \<^verbatim>\<open>InstallRegistry\<close> and \<^verbatim>\<open>InstallRouter\<close>: what
  the collaborators answered on the way, and the calls, the error and the world that
  result.
\<close>

lemma Sprintf_image: "Sprintf ''openshift/origin-${component}:%s'' [tag] = ''openshift/origin-${component}:'' @ tag"
  by simp

lemma Sprintf_xip: "Sprintf ''%s.xip.io'' [hostIP] = hostIP @ ''.xip.io''"
  by simp

lemma InstallRegistry_exists:
  assumes "servicesGet kc ''default'' svcDockerRegistry w = (None, w1)"
  shows "InstallRegistry kc pk configDir tag w = ([ServicesGet ''default'' svcDockerRegistry], None, w1)"
  using assms by (simp add: InstallRegistry_def)

lemma InstallRegistry_lookup_error:
  assumes "servicesGet kc ''default'' svcDockerRegistry w = (Some e, w1)" and "\<not> IsNotFound e"
  shows "InstallRegistry kc pk configDir tag w =
           ([ServicesGet ''default'' svcDockerRegistry],
            Some (DockerError ''error retrieving docker registry service'' (Some e)), w1)"
  using assms by (simp add: InstallRegistry_def NewError_def)

lemma InstallRegistry_absent:
  assumes "servicesGet kc ''default'' svcDockerRegistry w = (Some e, w1)" and "IsNotFound e"
    and "runCmdRegistry pk (registryConfig pk tag) w1 = (r, w2)"
  shows "InstallRegistry kc pk configDir tag w =
           ([ServicesGet ''default'' svcDockerRegistry, RunCmdRegistry (registryConfig pk tag)], r, w2)"
  using assms by (simp add: InstallRegistry_def registryConfig_def)

lemma InstallRouter_exists:
  assumes "servicesGet kc ''default'' ''router'' w = (None, w1)"
  shows "InstallRouter kc pk configDir tag hostIP w = ([ServicesGet ''default'' ''router''], Some (None, w1))"
  using assms by (simp add: InstallRouter_def)

lemma InstallRouter_account_fails:
  assumes "servicesGet kc ''default'' ''router'' w = (Some e, w1)"
    and "serviceAccountsCreate kc ''default'' \<lparr>ServiceAccount.Name = ''router''\<rparr> w1 = (Some err, w2)"
  shows "InstallRouter kc pk configDir tag hostIP w =
           ([ServicesGet ''default'' ''router'',
             ServiceAccountsCreate ''default'' \<lparr>ServiceAccount.Name = ''router''\<rparr>],
            Some (Some (DockerError ''cannot create router service account'' (Some err)), w2))"
  using assms by (simp add: InstallRouter_def NewError_def)

lemma InstallRouter_get_fails:
  assumes "servicesGet kc ''default'' ''router'' w = (Some e, w1)"
    and "serviceAccountsCreate kc ''default'' \<lparr>ServiceAccount.Name = ''router''\<rparr> w1 = (None, w2)"
    and "sccGet kc ''privileged'' w2 = (Inl err, w3)"
  shows "InstallRouter kc pk configDir tag hostIP w =
           ([ServicesGet ''default'' ''router'',
             ServiceAccountsCreate ''default'' \<lparr>ServiceAccount.Name = ''router''\<rparr>,
             SCCGet ''privileged''],
            Some (Some (DockerError ''cannot retrieve privileged SCC'' (Some err)), w3))"
  using assms by (simp add: InstallRouter_def NewError_def)



lemma InstallRouter_cat:
  assumes "servicesGet kc ''default'' ''router'' w = (Some e, w1)"
    and "serviceAccountsCreate kc ''default'' \<lparr>ServiceAccount.Name = ''router''\<rparr> w1 = (None, w2)"
    and "sccGet kc ''privileged'' w2 = (Inr scc, w3)"
    and "sccUpdate kc (grantRouter scc) w3 = (None, w4)"
    and "createServerCert pk (routerCertOptions pk configDir hostIP) w4 = (None, w5)"
  shows "InstallRouter kc pk configDir tag hostIP w =
           (case catFiles (fs w5) (routerPem pk configDir) (routerPemSources pk configDir) of
              None \<Rightarrow>
                ([ServicesGet ''default'' ''router'',
                  ServiceAccountsCreate ''default'' \<lparr>ServiceAccount.Name = ''router''\<rparr>,
                  SCCGet ''privileged'', SCCUpdate (grantRouter scc),
                  CreateServerCert (routerCertOptions pk configDir hostIP),
                  CatFiles (routerPem pk configDir) (routerPemSources pk configDir)], None)
            | Some (Some err, fs6) \<Rightarrow>
                ([ServicesGet ''default'' ''router'',
                  ServiceAccountsCreate ''default'' \<lparr>ServiceAccount.Name = ''router''\<rparr>,
                  SCCGet ''privileged'', SCCUpdate (grantRouter scc),
                  CreateServerCert (routerCertOptions pk configDir hostIP),
                  CatFiles (routerPem pk configDir) (routerPemSources pk configDir)],
                 Some (Some err, w5\<lparr>fs := fs6\<rparr>))
            | Some (None, fs6) \<Rightarrow>
                ([ServicesGet ''default'' ''router'',
                  ServiceAccountsCreate ''default'' \<lparr>ServiceAccount.Name = ''router''\<rparr>,
                  SCCGet ''privileged'', SCCUpdate (grantRouter scc),
                  CreateServerCert (routerCertOptions pk configDir hostIP),
                  CatFiles (routerPem pk configDir) (routerPemSources pk configDir),
                  RunCmdRouter (routerConfig pk configDir tag)],
                 Some (runCmdRouter pk (routerConfig pk configDir tag) (w5\<lparr>fs := fs6\<rparr>))))"
  using assms
  by (simp add: InstallRouter_def Let_def NewError_def grantRouter_def routerIdentity_def
      routerCertOptions_def routerMasterDir_def routerPem_def routerPemSources_def
      routerConfig_def split: option.splits prod.splits)

section \<open>The loop of catFiles\<close>

lemma osOpen_missing:
  "files fsys s = None \<Longrightarrow> osOpen fsys s = Inl (PathError ''open'' s ''no such file or directory'')"
  by (simp add: osOpen_def)

lemma catFiles_created:
  "createFault fsys dest = None \<Longrightarrow>
   catFiles fsys dest src = catLoop (fsys\<lparr>files := (files fsys)(dest \<mapsto> [])\<rparr>) dest None src"
  by (simp add: catFiles_def osCreate_def)

lemma catLoop_open_fails:
  "osOpen fsys f = Inl oerr \<Longrightarrow> catLoop fsys out err (f # src) = Some (err, fsys)"
  by simp

text \<open>
  When the destination is not among the sources and every source exists, opens and is
  copied without a fault, the loop returns nil and has added to the destination the
  bytes of the sources in their order; no other file has changed.
\<close>

lemma catLoop_appends:
  assumes "\<forall>s\<in>set src. files fsys s \<noteq> None \<and> openFault fsys s = None \<and> copyFault fsys s = None"
      and "out \<notin> set src"
  shows "catLoop (fsys\<lparr>files := (files fsys)(out \<mapsto> acc)\<rparr>) out err src
           = Some (None, fsys\<lparr>files := (files fsys)(out \<mapsto> acc @ concat (map (bytesOf fsys) src))\<rparr>)"
  using assms
proof (induction src arbitrary: acc err)
  case Nil
  then show ?case by simp
next
  case (Cons s src)
  let ?cur = "fsys\<lparr>files := (files fsys)(out \<mapsto> acc)\<rparr>"
  from Cons.prems have ne: "s \<noteq> out" by auto
  from Cons.prems obtain b where b: "files fsys s = Some b" and
    nf: "openFault fsys s = None" "copyFault fsys s = None" by auto
  have op: "osOpen ?cur s = Inr s" using b nf ne by (simp add: osOpen_def)
  have cp: "ioCopy ?cur out s = Some (None, fsys\<lparr>files := (files fsys)(out \<mapsto> acc @ b)\<rparr>)"
    using b nf ne by (simp add: ioCopy_def bytesOf_def)
  have rest: "\<forall>s\<in>set src. files fsys s \<noteq> None \<and> openFault fsys s = None \<and> copyFault fsys s = None"
    and out: "out \<notin> set src"
    using Cons.prems by auto
  have "catLoop ?cur out err (s # src)
          = catLoop (fsys\<lparr>files := (files fsys)(out \<mapsto> acc @ b)\<rparr>) out None src"
    using op cp by simp
  also have "\<dots> = Some (None, fsys\<lparr>files := (files fsys)(out \<mapsto> (acc @ b) @ concat (map (bytesOf fsys) src))\<rparr>)"
    by (rule Cons.IH [OF rest out])
  finally have r: "catLoop ?cur out err (s # src)
      = Some (None, fsys\<lparr>files := (files fsys)(out \<mapsto> (acc @ b) @ concat (map (bytesOf fsys) src))\<rparr>)" .
  have "concat (map (bytesOf fsys) (s # src)) = b @ concat (map (bytesOf fsys) src)"
    using b by (simp add: bytesOf_def)
  then show ?case unfolding r by (simp only: append_assoc)
qed

text \<open>
  An error returned by the loop, entered with \<^verbatim>\<open>err\<close> nil, is the error of a copy:
  the error of an open that fails is never the one returned.
\<close>

lemma catLoop_error_is_copy_fault:
  "catLoop fsys out None src = Some (Some e, fsys') \<Longrightarrow>
   \<exists>s\<in>set src. \<exists>n. copyFault fsys s = Some (n, e)"
proof (induction src arbitrary: fsys)
  case Nil
  then show ?case by simp
next
  case (Cons s src)
  show ?case
  proof (cases "osOpen fsys s")
    case (Inl oerr)
    with Cons.prems show ?thesis by simp
  next
    case (Inr inp)
    then have inp: "inp = s" by (auto simp: osOpen_def split: option.splits)
    show ?thesis
    proof (cases "copyFault fsys s")
      case None
      with Cons.prems Inr inp obtain f1 where
        f1: "ioCopy fsys out s = Some (None, f1)" and r: "catLoop f1 out None src = Some (Some e, fsys')"
        by (auto simp: ioCopy_def split: if_splits)
      from f1 None have "copyFault f1 = copyFault fsys"
        by (auto simp: ioCopy_def split: if_splits)
      with Cons.IH [OF r] show ?thesis by auto
    next
      case (Some a)
      with Cons.prems Inr inp show ?thesis
        by (cases a) (auto simp: ioCopy_def)
    qed
  qed
qed



section \<open>The properties of the specification\<close>

text \<open>
  C1. When a source cannot be opened, \<^verbatim>\<open>catFiles\<close> is to return the error of the open.
  The source returns \<^verbatim>\<open>err\<close> there, not \<^verbatim>\<open>oerr\<close>. On a file system where
  \<^verbatim>\<open>router.pem\<close> can be created, \<^verbatim>\<open>router.crt\<close> is missing and \<^verbatim>\<open>ca.crt\<close> exists,
  the open of \<^verbatim>\<open>router.crt\<close> fails with a path error, \<^verbatim>\<open>catFiles\<close> returns nil, and
  \<^verbatim>\<open>router.pem\<close> is left created and empty (the copy of \<^verbatim>\<open>ca.crt\<close> is not made).
\<close>

theorem catFiles_missing_source_returns_nil:
  "osOpen (simFs\<lparr>files := (files simFs)(''/cfg/master/router.pem'' \<mapsto> [])\<rparr>) ''/cfg/master/router.crt''
     = Inl (PathError ''open'' ''/cfg/master/router.crt'' ''no such file or directory'')
   \<and> map_option fst (catFiles simFs ''/cfg/master/router.pem''
         [''/cfg/master/router.crt'', ''/cfg/master/ca.crt'']) = Some None
   \<and> map_option (\<lambda>r. files (snd r) ''/cfg/master/router.pem'')
         (catFiles simFs ''/cfg/master/router.pem''
            [''/cfg/master/router.crt'', ''/cfg/master/ca.crt'']) = Some (Some [])"
  by (simp add: catFiles_def osCreate_def osOpen_def simFs_def)

text \<open>
  C2. When the probe finds the service, \<^verbatim>\<open>InstallRegistry\<close> and \<^verbatim>\<open>InstallRouter\<close>
  return nil at once: the probe is the only call made (no service account is created,
  no policy read or written, no certificate generated, no file written, no delegate
  invoked) and the world is the one the probe left.
\<close>

theorem existing_service_no_op:
  "(servicesGet kc ''default'' ''docker-registry'' w = (None, w1) \<longrightarrow>
      InstallRegistry kc pk configDir tag w = ([ServicesGet ''default'' ''docker-registry''], None, w1))
   \<and> (servicesGet kc ''default'' ''router'' w = (None, w2) \<longrightarrow>
      InstallRouter kc pk configDir tag hostIP w = ([ServicesGet ''default'' ''router''], Some (None, w2)))"
  by (simp add: InstallRouter_exists InstallRegistry_exists [unfolded svcDockerRegistry_def])

theorem existing_service_no_op_witness:
  "servicesGet simClient ''default'' ''docker-registry'' (simWorld [''docker-registry'', ''router''])
     = (None, simWorld [''docker-registry'', ''router''])
   \<and> InstallRegistry simClient simPackages ''/cfg'' ''v1.3'' (simWorld [''docker-registry'', ''router''])
     = ([ServicesGet ''default'' ''docker-registry''], None, simWorld [''docker-registry'', ''router''])
   \<and> servicesGet simClient ''default'' ''router'' (simWorld [''docker-registry'', ''router''])
     = (None, simWorld [''docker-registry'', ''router''])
   \<and> InstallRouter simClient simPackages ''/cfg'' ''v1.3'' ''10.0.0.1'' (simWorld [''docker-registry'', ''router''])
     = ([ServicesGet ''default'' ''router''], Some (None, simWorld [''docker-registry'', ''router'']))"
  using existing_service_no_op [of simClient "simWorld [''docker-registry'', ''router'']"
      "simWorld [''docker-registry'', ''router'']" simPackages "''/cfg''" "''v1.3''"
      "simWorld [''docker-registry'', ''router'']" "''10.0.0.1''"]
  by (simp add: simClient_def simWorld_def)



text \<open>
  C4. When the destination can be created, is not itself one of the sources, and every
  source exists and is opened and copied without a failure, \<^verbatim>\<open>catFiles\<close> returns nil
  and leaves the destination holding the bytes of the sources, one after the other in
  the order given, every other file as it was. The claim has three sources, the theorem
  any number.
\<close>

theorem catFiles_concatenates_distinct:
  assumes "createFault fsys dest = None"
      and "\<forall>s\<in>set src. files fsys s \<noteq> None \<and> openFault fsys s = None \<and> copyFault fsys s = None"
      and "dest \<notin> set src"
  shows "catFiles fsys dest src
           = Some (None, fsys\<lparr>files := (files fsys)(dest \<mapsto> concat (map (bytesOf fsys) src))\<rparr>)"
proof -
  have "catFiles fsys dest src = catLoop (fsys\<lparr>files := (files fsys)(dest \<mapsto> [])\<rparr>) dest None src"
    using assms(1) by (rule catFiles_created)
  also have "\<dots> = Some (None, fsys\<lparr>files := (files fsys)(dest \<mapsto> [] @ concat (map (bytesOf fsys) src))\<rparr>)"
    by (rule catLoop_appends [OF assms(2) assms(3)])
  finally show ?thesis by simp
qed

theorem catFiles_concatenates_distinct_witness:
  "createFault threeFiles ''d'' = None
   \<and> ''d'' \<notin> set [''a'', ''b'', ''c'']
   \<and> bytesOf threeFiles ''a'' = [1, 2] \<and> bytesOf threeFiles ''b'' = [3] \<and> bytesOf threeFiles ''c'' = [4, 5]
   \<and> catFiles threeFiles ''d'' [''a'', ''b'', ''c'']
       = Some (None, threeFiles\<lparr>files := (files threeFiles)(''d'' \<mapsto> [1, 2, 3, 4, 5])\<rparr>)"
proof -
  have h1: "createFault threeFiles ''d'' = None"
    by (simp add: threeFiles_def simFs_def)
  have h2: "\<forall>s\<in>set [''a'', ''b'', ''c''].
              files threeFiles s \<noteq> None \<and> openFault threeFiles s = None \<and> copyFault threeFiles s = None"
    by (simp add: threeFiles_def simFs_def)
  have h3: "''d'' \<notin> set [''a'', ''b'', ''c'']" by simp
  have b: "bytesOf threeFiles ''a'' = [1, 2] \<and> bytesOf threeFiles ''b'' = [3] \<and> bytesOf threeFiles ''c'' = [4, 5]"
    by (simp add: bytesOf_def threeFiles_def)
  from catFiles_concatenates_distinct [OF h1 h2 h3] h1 h3 b
  show ?thesis by simp
qed

text \<open>
  Without the condition on the destination the property fails: \<^verbatim>\<open>os.Create\<close>
  truncates the destination before any source is opened. With \<open>d\<close> holding the byte 9
  and given as the first of three sources, every open and every copy succeeds and nil is
  returned, and \<open>d\<close> ends with the bytes of the two other sources only.
\<close>

theorem catFiles_destination_as_source_counterexample:
  "createFault threeFiles ''d'' = None
   \<and> openFault threeFiles ''d'' = None \<and> openFault threeFiles ''a'' = None \<and> openFault threeFiles ''b'' = None
   \<and> copyFault threeFiles ''d'' = None \<and> copyFault threeFiles ''a'' = None \<and> copyFault threeFiles ''b'' = None
   \<and> files threeFiles ''d'' = Some [9] \<and> files threeFiles ''a'' = Some [1, 2] \<and> files threeFiles ''b'' = Some [3]
   \<and> catFiles threeFiles ''d'' [''d'', ''a'', ''b'']
       = Some (None, threeFiles\<lparr>files := (files threeFiles)(''d'' \<mapsto> [1, 2, 3])\<rparr>)
   \<and> [1, 2, 3] \<noteq> [9] @ [1, 2] @ [3 :: 8 word]"
  by (simp add: threeFiles_def simFs_def catFiles_def osCreate_def osOpen_def ioCopy_def bytesOf_def)

text \<open>
  C5. When the router service is absent and every step succeeds, \<^verbatim>\<open>InstallRouter\<close>
  returns nil after exactly these calls, in this order: the probe, one creation of the
  service account, one read of the policy, one write of the policy, one generation of
  the certificate, the bundle, one call of the router delegate. When the registry service
  is absent and the delegate succeeds, \<^verbatim>\<open>InstallRegistry\<close> returns nil after the probe
  and exactly one call of the registry delegate.
\<close>

theorem install_calls_once:
  "(servicesGet kc ''default'' ''router'' w = (Some e, w1)
      \<and> serviceAccountsCreate kc ''default'' \<lparr>ServiceAccount.Name = ''router''\<rparr> w1 = (None, w2)
      \<and> sccGet kc ''privileged'' w2 = (Inr scc, w3)
      \<and> sccUpdate kc (grantRouter scc) w3 = (None, w4)
      \<and> createServerCert pk (routerCertOptions pk configDir hostIP) w4 = (None, w5)
      \<and> catFiles (fs w5) (routerPem pk configDir) (routerPemSources pk configDir) = Some (None, fs6)
      \<and> runCmdRouter pk (routerConfig pk configDir tag) (w5\<lparr>fs := fs6\<rparr>) = (None, w7)
    \<longrightarrow> InstallRouter kc pk configDir tag hostIP w =
        ([ServicesGet ''default'' ''router'',
          ServiceAccountsCreate ''default'' \<lparr>ServiceAccount.Name = ''router''\<rparr>,
          SCCGet ''privileged'', SCCUpdate (grantRouter scc),
          CreateServerCert (routerCertOptions pk configDir hostIP),
          CatFiles (routerPem pk configDir) (routerPemSources pk configDir),
          RunCmdRouter (routerConfig pk configDir tag)], Some (None, w7))
      \<and> length (filter isServiceAccountsCreate (fst (InstallRouter kc pk configDir tag hostIP w))) = 1
      \<and> length (filter isSCCGet (fst (InstallRouter kc pk configDir tag hostIP w))) = 1
      \<and> length (filter isSCCUpdate (fst (InstallRouter kc pk configDir tag hostIP w))) = 1
      \<and> length (filter isCreateServerCert (fst (InstallRouter kc pk configDir tag hostIP w))) = 1
      \<and> length (filter isRunCmdRouter (fst (InstallRouter kc pk configDir tag hostIP w))) = 1
      \<and> filter isRunCmdRegistry (fst (InstallRouter kc pk configDir tag hostIP w)) = [])
   \<and> (servicesGet kc ''default'' ''docker-registry'' v = (Some e', v1) \<and> IsNotFound e'
      \<and> runCmdRegistry pk (registryConfig pk tag) v1 = (None, v2)
    \<longrightarrow> InstallRegistry kc pk configDir tag v =
        ([ServicesGet ''default'' ''docker-registry'', RunCmdRegistry (registryConfig pk tag)], None, v2)
      \<and> length (filter isRunCmdRegistry (fst (InstallRegistry kc pk configDir tag v))) = 1
      \<and> filter isRunCmdRouter (fst (InstallRegistry kc pk configDir tag v)) = [])"
proof (intro conjI impI)
  assume a: "servicesGet kc ''default'' ''router'' w = (Some e, w1)
      \<and> serviceAccountsCreate kc ''default'' \<lparr>ServiceAccount.Name = ''router''\<rparr> w1 = (None, w2)
      \<and> sccGet kc ''privileged'' w2 = (Inr scc, w3)
      \<and> sccUpdate kc (grantRouter scc) w3 = (None, w4)
      \<and> createServerCert pk (routerCertOptions pk configDir hostIP) w4 = (None, w5)
      \<and> catFiles (fs w5) (routerPem pk configDir) (routerPemSources pk configDir) = Some (None, fs6)
      \<and> runCmdRouter pk (routerConfig pk configDir tag) (w5\<lparr>fs := fs6\<rparr>) = (None, w7)"
  then have r: "InstallRouter kc pk configDir tag hostIP w =
      ([ServicesGet ''default'' ''router'',
        ServiceAccountsCreate ''default'' \<lparr>ServiceAccount.Name = ''router''\<rparr>,
        SCCGet ''privileged'', SCCUpdate (grantRouter scc),
        CreateServerCert (routerCertOptions pk configDir hostIP),
        CatFiles (routerPem pk configDir) (routerPemSources pk configDir),
        RunCmdRouter (routerConfig pk configDir tag)], Some (None, w7))"
    using InstallRouter_cat [of kc w e w1 w2 scc w3 w4 pk configDir hostIP w5 tag] by simp
  show "InstallRouter kc pk configDir tag hostIP w =
      ([ServicesGet ''default'' ''router'',
        ServiceAccountsCreate ''default'' \<lparr>ServiceAccount.Name = ''router''\<rparr>,
        SCCGet ''privileged'', SCCUpdate (grantRouter scc),
        CreateServerCert (routerCertOptions pk configDir hostIP),
        CatFiles (routerPem pk configDir) (routerPemSources pk configDir),
        RunCmdRouter (routerConfig pk configDir tag)], Some (None, w7))" by (rule r)
  show "length (filter isServiceAccountsCreate (fst (InstallRouter kc pk configDir tag hostIP w))) = 1"
    by (simp add: r)
  show "length (filter isSCCGet (fst (InstallRouter kc pk configDir tag hostIP w))) = 1"
    by (simp add: r)
  show "length (filter isSCCUpdate (fst (InstallRouter kc pk configDir tag hostIP w))) = 1"
    by (simp add: r)
  show "length (filter isCreateServerCert (fst (InstallRouter kc pk configDir tag hostIP w))) = 1"
    by (simp add: r)
  show "length (filter isRunCmdRouter (fst (InstallRouter kc pk configDir tag hostIP w))) = 1"
    by (simp add: r)
  show "filter isRunCmdRegistry (fst (InstallRouter kc pk configDir tag hostIP w)) = []"
    by (simp add: r)
next
  assume b: "servicesGet kc ''default'' ''docker-registry'' v = (Some e', v1) \<and> IsNotFound e'
      \<and> runCmdRegistry pk (registryConfig pk tag) v1 = (None, v2)"
  then have r: "InstallRegistry kc pk configDir tag v =
      ([ServicesGet ''default'' svcDockerRegistry, RunCmdRegistry (registryConfig pk tag)], None, v2)"
    using InstallRegistry_absent [of kc v e' v1 pk tag None v2 configDir]
    by (simp add: svcDockerRegistry_def)
  show "InstallRegistry kc pk configDir tag v =
      ([ServicesGet ''default'' ''docker-registry'', RunCmdRegistry (registryConfig pk tag)], None, v2)"
    by (simp add: r svcDockerRegistry_def)
  show "length (filter isRunCmdRegistry (fst (InstallRegistry kc pk configDir tag v))) = 1"
    by (simp add: r)
  show "filter isRunCmdRouter (fst (InstallRegistry kc pk configDir tag v)) = []"
    by (simp add: r)
qed

theorem install_calls_once_witness:
  "fst (InstallRouter simClient simPackages ''/cfg'' ''v1.3'' ''10.0.0.1'' (simWorld [])) =
     [ServicesGet ''default'' ''router'',
      ServiceAccountsCreate ''default'' \<lparr>ServiceAccount.Name = ''router''\<rparr>,
      SCCGet ''privileged'', SCCUpdate (grantRouter \<lparr>Users = [''A'', ''B''], Groups = []\<rparr>),
      CreateServerCert (routerCertOptions simPackages ''/cfg'' ''10.0.0.1''),
      CatFiles ''/cfg/master/router.pem''
        [''/cfg/master/router.crt'', ''/cfg/master/router.key'', ''/cfg/master/ca.crt''],
      RunCmdRouter (routerConfig simPackages ''/cfg'' ''v1.3'')]
   \<and> map_option fst (snd (InstallRouter simClient simPackages ''/cfg'' ''v1.3'' ''10.0.0.1'' (simWorld [])))
       = Some None
   \<and> length (filter isServiceAccountsCreate
        (fst (InstallRouter simClient simPackages ''/cfg'' ''v1.3'' ''10.0.0.1'' (simWorld [])))) = 1
   \<and> length (filter isRunCmdRouter
        (fst (InstallRouter simClient simPackages ''/cfg'' ''v1.3'' ''10.0.0.1'' (simWorld [])))) = 1
   \<and> fst (InstallRegistry simClient simPackages ''/cfg'' ''v1.3'' (simWorld [])) =
       [ServicesGet ''default'' ''docker-registry'', RunCmdRegistry (registryConfig simPackages ''v1.3'')]
   \<and> fst (snd (InstallRegistry simClient simPackages ''/cfg'' ''v1.3'' (simWorld []))) = None"
proof -
  let ?w0 = "simWorld []"
  let ?scc = "\<lparr>Users = [''A'', ''B''], Groups = []\<rparr>"
  let ?w2 = "snd (serviceAccountsCreate simClient ''default'' \<lparr>ServiceAccount.Name = ''router''\<rparr> ?w0)"
  let ?w4 = "snd (sccUpdate simClient (grantRouter ?scc) ?w2)"
  let ?w5 = "snd (createServerCert simPackages (routerCertOptions simPackages ''/cfg'' ''10.0.0.1'') ?w4)"
  let ?fs6 = "(fs ?w5)\<lparr>files := (files (fs ?w5))(''/cfg/master/router.pem'' \<mapsto>
                 [0x63, 0x72, 0x74, 0x6B, 0x65, 0x79, 0x63, 0x61])\<rparr>"
  let ?w7 = "snd (runCmdRouter simPackages (routerConfig simPackages ''/cfg'' ''v1.3'') (?w5\<lparr>fs := ?fs6\<rparr>))"
  let ?v2 = "snd (runCmdRegistry simPackages (registryConfig simPackages ''v1.3'') ?w0)"
  have h1: "servicesGet simClient ''default'' ''router'' ?w0
              = (Some (StatusError StatusReasonNotFound ''router''), ?w0)"
    by (simp add: simClient_def simWorld_def)
  have h2: "serviceAccountsCreate simClient ''default'' \<lparr>ServiceAccount.Name = ''router''\<rparr> ?w0 = (None, ?w2)"
    by (simp add: simClient_def simWorld_def)
  have h3: "sccGet simClient ''privileged'' ?w2 = (Inr ?scc, ?w2)"
    by (simp add: simClient_def simWorld_def)
  have h4: "sccUpdate simClient (grantRouter ?scc) ?w2 = (None, ?w4)"
    by (simp add: simClient_def)
  have h5: "createServerCert simPackages (routerCertOptions simPackages ''/cfg'' ''10.0.0.1'') ?w4 = (None, ?w5)"
    by (simp add: simPackages_def)
  have h6: "catFiles (fs ?w5) (routerPem simPackages ''/cfg'') (routerPemSources simPackages ''/cfg'')
              = Some (None, ?fs6)"
    by (simp add: simPackages_def simClient_def simWorld_def simFs_def routerPem_def
        routerPemSources_def routerMasterDir_def routerCertOptions_def
        catFiles_def osCreate_def osOpen_def ioCopy_def bytesOf_def)
  have h7: "runCmdRouter simPackages (routerConfig simPackages ''/cfg'' ''v1.3'') (?w5\<lparr>fs := ?fs6\<rparr>) = (None, ?w7)"
    by (simp add: simPackages_def)
  have g1: "servicesGet simClient ''default'' ''docker-registry'' ?w0
              = (Some (StatusError StatusReasonNotFound ''docker-registry''), ?w0)"
    by (simp add: simClient_def simWorld_def)
  have g2: "IsNotFound (StatusError StatusReasonNotFound ''docker-registry'')"
    by (simp add: IsNotFound_def)
  have g3: "runCmdRegistry simPackages (registryConfig simPackages ''v1.3'') ?w0 = (None, ?v2)"
    by (simp add: simPackages_def)
  from install_calls_once [of simClient ?w0 "StatusError StatusReasonNotFound ''router''" ?w0 ?w2
      ?scc ?w2 ?w4 simPackages "''/cfg''" "''10.0.0.1''" ?w5 ?fs6 "''v1.3''" ?w7 ?w0
      "StatusError StatusReasonNotFound ''docker-registry''" ?w0 ?v2]
    h1 h2 h3 h4 h5 h6 h7 g1 g2 g3
  show ?thesis
    by (simp add: routerPem_def routerPemSources_def routerMasterDir_def simPackages_def)
qed



text \<open>
  C7. When the probe for the registry service fails with an error that is not
  not-found, \<^verbatim>\<open>InstallRegistry\<close> makes no other call and returns the error
  "error retrieving docker registry service" with the error of the probe as its cause.
\<close>

theorem InstallRegistry_wraps_lookup_error:
  assumes "servicesGet kc ''default'' ''docker-registry'' w = (Some e, w1)" and "\<not> IsNotFound e"
  shows "InstallRegistry kc pk configDir tag w =
           ([ServicesGet ''default'' ''docker-registry''],
            Some (WithCause (NewError ''error retrieving docker registry service'') e), w1)
         \<and> WithCause (NewError ''error retrieving docker registry service'') e
           = DockerError ''error retrieving docker registry service'' (Some e)"
  using InstallRegistry_lookup_error [of kc w e w1 pk configDir tag] assms
  by (simp add: svcDockerRegistry_def NewError_def)

theorem InstallRegistry_wraps_lookup_error_witness:
  "\<not> IsNotFound (OtherError ''connection refused'')
   \<and> InstallRegistry refusedClient simPackages ''/cfg'' ''v1.3'' (simWorld []) =
       ([ServicesGet ''default'' ''docker-registry''],
        Some (DockerError ''error retrieving docker registry service''
               (Some (OtherError ''connection refused''))),
        simWorld [])"
proof -
  have h1: "servicesGet refusedClient ''default'' ''docker-registry'' (simWorld [])
              = (Some (OtherError ''connection refused''), simWorld [])"
    by (simp add: refusedClient_def)
  have h2: "\<not> IsNotFound (OtherError ''connection refused'')"
    by (simp add: IsNotFound_def)
  from InstallRegistry_wraps_lookup_error [OF h1 h2, of simPackages "''/cfg''" "''v1.3''"] h2
  show ?thesis by simp
qed



text \<open>
  C9. When the destination can be created, \<^verbatim>\<open>catFiles\<close> truncates it before it opens
  a source: with no source the destination is left empty and nil is returned; the loop
  starts on the file system with the destination empty; the result does not depend on
  what the destination held, or on whether it existed; and when the first source fails to
  open, or fails while it is copied, the destination holds nothing, or only the bytes
  copied before the failure.
\<close>

theorem catFiles_truncates_first:
  assumes "createFault fsys dest = None"
  shows "catFiles fsys dest [] = Some (None, fsys\<lparr>files := (files fsys)(dest \<mapsto> [])\<rparr>)
       \<and> catFiles fsys dest src = catLoop (fsys\<lparr>files := (files fsys)(dest \<mapsto> [])\<rparr>) dest None src
       \<and> catFiles (fsys\<lparr>files := (files fsys)(dest := old)\<rparr>) dest src = catFiles fsys dest src
       \<and> (osOpen (fsys\<lparr>files := (files fsys)(dest \<mapsto> [])\<rparr>) f = Inl oerr \<longrightarrow>
            map_option (\<lambda>r. files (snd r) dest) (catFiles fsys dest (f # src)) = Some (Some []))
       \<and> (osOpen (fsys\<lparr>files := (files fsys)(dest \<mapsto> [])\<rparr>) f = Inr f \<and> copyFault fsys f = Some (n, e) \<longrightarrow>
            map_option (\<lambda>r. files (snd r) dest) (catFiles fsys dest (f # src))
              = Some (Some (take n (if f = dest then [] else bytesOf fsys f))))"
proof -
  let ?fs = "fsys\<lparr>files := (files fsys)(dest \<mapsto> [])\<rparr>"
  have cr: "\<And>l. catFiles fsys dest l = catLoop ?fs dest None l"
    using assms by (rule catFiles_created)
  have a: "catFiles fsys dest [] = Some (None, ?fs)" by (simp add: cr)
  have c: "catFiles (fsys\<lparr>files := (files fsys)(dest := old)\<rparr>) dest src = catFiles fsys dest src"
    using assms by (simp add: catFiles_def osCreate_def)
  have d: "osOpen ?fs f = Inl oerr \<longrightarrow>
            map_option (\<lambda>r. files (snd r) dest) (catFiles fsys dest (f # src)) = Some (Some [])"
    by (simp add: cr)
  have e: "osOpen ?fs f = Inr f \<and> copyFault fsys f = Some (n, e) \<longrightarrow>
            map_option (\<lambda>r. files (snd r) dest) (catFiles fsys dest (f # src))
              = Some (Some (take n (if f = dest then [] else bytesOf fsys f)))"
    by (simp add: cr ioCopy_def bytesOf_def)
  from a cr c d e show ?thesis by blast
qed

theorem catFiles_truncates_first_witness:
  "createFault threeFiles ''d'' = None
   \<and> files threeFiles ''d'' = Some [9]
   \<and> map_option (\<lambda>r. (fst r, files (snd r) ''d'')) (catFiles threeFiles ''d'' []) = Some (None, Some [])
   \<and> catFiles (threeFiles\<lparr>files := (files threeFiles)(''d'' := None)\<rparr>) ''d'' [''a'']
       = catFiles threeFiles ''d'' [''a'']
   \<and> osOpen (threeFiles\<lparr>files := (files threeFiles)(''d'' \<mapsto> [])\<rparr>) ''missing''
       = Inl (PathError ''open'' ''missing'' ''no such file or directory'')
   \<and> map_option (\<lambda>r. files (snd r) ''d'') (catFiles threeFiles ''d'' [''missing'', ''a''])
       = Some (Some [])"
proof -
  have h1: "createFault threeFiles ''d'' = None"
    by (simp add: threeFiles_def simFs_def)
  have h2: "osOpen (threeFiles\<lparr>files := (files threeFiles)(''d'' \<mapsto> [])\<rparr>) ''missing''
       = Inl (PathError ''open'' ''missing'' ''no such file or directory'')"
    by (simp add: osOpen_def threeFiles_def)
  have h3: "files threeFiles ''d'' = Some [9]"
    by (simp add: threeFiles_def)
  from catFiles_truncates_first [OF h1, of "[''a'']" None "''missing''"
      "PathError ''open'' ''missing'' ''no such file or directory''" 0 "OtherError ''''"] h1 h2 h3
  show ?thesis by simp
qed

text \<open>
  C10. \<^verbatim>\<open>InstallRegistry\<close> does not use \<^verbatim>\<open>configDir\<close>: two runs that differ only in
  it make the same calls with the same arguments, return the same error and leave the
  same world. Its calls are the probe and the delegate, none on the file system; when
  these two leave the file system as it is, so does \<^verbatim>\<open>InstallRegistry\<close>.
\<close>

theorem InstallRegistry_configDir_unused:
  "InstallRegistry kc pk configDir tag w = InstallRegistry kc pk configDir' tag w
   \<and> (\<forall>c\<in>set (fst (InstallRegistry kc pk configDir tag w)). isServicesGet c \<or> isRunCmdRegistry c)
   \<and> ((\<forall>ns name v. fs (snd (servicesGet kc ns name v)) = fs v)
        \<and> (\<forall>cfg v. fs (snd (runCmdRegistry pk cfg v)) = fs v)
      \<longrightarrow> fs (snd (snd (InstallRegistry kc pk configDir tag w))) = fs w)"
proof (intro conjI impI)
  show "InstallRegistry kc pk configDir tag w = InstallRegistry kc pk configDir' tag w"
    by (simp add: InstallRegistry_def)
  show "\<forall>c\<in>set (fst (InstallRegistry kc pk configDir tag w)). isServicesGet c \<or> isRunCmdRegistry c"
    by (auto simp: InstallRegistry_def Let_def split: prod.splits option.splits if_splits)
  assume a: "(\<forall>ns name v. fs (snd (servicesGet kc ns name v)) = fs v)
        \<and> (\<forall>cfg v. fs (snd (runCmdRegistry pk cfg v)) = fs v)"
  obtain r1 w1 where p: "servicesGet kc ''default'' svcDockerRegistry w = (r1, w1)"
    by (cases "servicesGet kc ''default'' svcDockerRegistry w")
  with a have f1: "fs w1 = fs w" by (metis snd_conv)
  obtain r2 w2 where d: "runCmdRegistry pk (registryConfig pk tag) w1 = (r2, w2)"
    by (cases "runCmdRegistry pk (registryConfig pk tag) w1")
  with a have f2: "fs w2 = fs w1" by (metis snd_conv)
  show "fs (snd (snd (InstallRegistry kc pk configDir tag w))) = fs w"
  proof (cases r1)
    case None
    with p f1 show ?thesis by (simp add: InstallRegistry_exists)
  next
    case (Some err)
    show ?thesis
    proof (cases "IsNotFound err")
      case True
      with p Some d f1 f2 show ?thesis by (simp add: InstallRegistry_absent)
    next
      case False
      with p Some f1 show ?thesis by (simp add: InstallRegistry_lookup_error)
    qed
  qed
qed

theorem InstallRegistry_configDir_unused_witness:
  "InstallRegistry simClient simPackages ''/cfg'' ''v1.3'' (simWorld [])
     = InstallRegistry simClient simPackages ''/elsewhere'' ''v1.3'' (simWorld [])
   \<and> fs (snd (snd (InstallRegistry simClient simPackages ''/cfg'' ''v1.3'' (simWorld [])))) = fs (simWorld [])
   \<and> fst (InstallRegistry simClient simPackages ''/cfg'' ''v1.3'' (simWorld []))
     = [ServicesGet ''default'' ''docker-registry'', RunCmdRegistry (registryConfig simPackages ''v1.3'')]"
proof -
  have h1: "\<forall>ns name v. fs (snd (servicesGet simClient ns name v)) = fs v"
    by (simp add: simClient_def)
  have h2: "\<forall>cfg v. fs (snd (runCmdRegistry simPackages cfg v)) = fs v"
    by (simp add: simPackages_def)
  have h3: "fst (InstallRegistry simClient simPackages ''/cfg'' ''v1.3'' (simWorld []))
     = [ServicesGet ''default'' ''docker-registry'', RunCmdRegistry (registryConfig simPackages ''v1.3'')]"
    by (simp add: InstallRegistry_def Let_def registryConfig_def simClient_def simWorld_def
        svcDockerRegistry_def IsNotFound_def simPackages_def)
  from InstallRegistry_configDir_unused [of simClient simPackages "''/cfg''" "''v1.3''" "simWorld []"
      "''/elsewhere''"] h1 h2 h3
  show ?thesis by blast
qed

end
